theory Spec2Isabelle
  imports Main
begin

section \<open>The clip button's click handler (script.js)\<close>

text \<open>
  The script registers one asynchronous click handler. It reads the value of the text
  input, and either alerts the user or clears the result area, shows the loader, sets the
  status text and posts the value to the clipping service; when the service has answered
  it renders a video element or an error message and hides the loader.

  The handler is modelled by the list of effects it performs, in program order: one
  effect for each statement that writes to the page, opens an alert or calls
  \<^verbatim>\<open>fetch\<close>. The handler runs in two tasks of the event loop: from the click up
  to the first \<^verbatim>\<open>await\<close> (\<open>handler_begin\<close>), and from the settled request to the
  end (\<open>handler_resume\<close>); the second \<^verbatim>\<open>await\<close>, of \<^verbatim>\<open>response.json()\<close>,
  has no effect on the page on either side of it. The page is a record of what the five
  elements show, and a log of alerts and requests. The elements are taken to exist.
\<close>

subsection \<open>Values of the platform\<close>

text \<open>
  A parsed JSON value. Strings are lists of characters, a character standing for one code
  unit. Numbers are kept abstract in \<open>'n\<close>: the script only ever turns them into
  strings, with the rendering \<open>nts\<close> a parameter. An object is the list of its own
  properties.
\<close>

datatype 'n json =
    JNull
  | JBool bool
  | JNum 'n
  | JStr string
  | JArr "'n json list"
  | JObj "(string \<times> 'n json) list"

text \<open>A thrown value: the kind of error and its message.\<close>

datatype js_error =
    TypeError string
  | SyntaxError string
  | OtherError string

text \<open>Joining with commas, as \<^verbatim>\<open>Array.prototype.join\<close> does.\<close>

fun join_comma :: "string list \<Rightarrow> string" where
  "join_comma [] = []"
| "join_comma [s] = s"
| "join_comma (s # t # ss) = s @ '','' @ join_comma (t # ss)"

text \<open>
  String conversion of a JSON value, as a template literal and the reflecting
  \<^verbatim>\<open>src\<close> attribute apply it. An array is the join of its elements, with
  \<^verbatim>\<open>null\<close> elements empty. An object is converted by its \<^verbatim>\<open>toString\<close>:
  the inherited one gives \<^verbatim>\<open>[object Object]\<close>; an own member of that name is
  a JSON value and cannot be called, and then the conversion throws.
\<close>

fun ToString :: "('n \<Rightarrow> string) \<Rightarrow> 'n json \<Rightarrow> js_error + string"
  and ToString_elements :: "('n \<Rightarrow> string) \<Rightarrow> 'n json list \<Rightarrow> js_error + string list" where
  "ToString nts JNull = Inr ''null''"
| "ToString nts (JBool b) = Inr (if b then ''true'' else ''false'')"
| "ToString nts (JNum n) = Inr (nts n)"
| "ToString nts (JStr s) = Inr s"
| "ToString nts (JArr xs) =
     (case ToString_elements nts xs of
        Inl e \<Rightarrow> Inl e
      | Inr ss \<Rightarrow> Inr (join_comma ss))"
| "ToString nts (JObj kvs) =
     (if map_of kvs ''toString'' = None then Inr ''[object Object]''
      else Inl (TypeError ''Cannot convert object to primitive value''))"
| "ToString_elements nts [] = Inr []"
| "ToString_elements nts (x # xs) =
     (case (if x = JNull then Inr [] else ToString nts x) of
        Inl e \<Rightarrow> Inl e
      | Inr s \<Rightarrow>
          (case ToString_elements nts xs of
             Inl e \<Rightarrow> Inl e
           | Inr ss \<Rightarrow> Inr (s # ss)))"

text \<open>The result of reading a property: \<open>None\<close> is \<^verbatim>\<open>undefined\<close>.\<close>

fun ToString_val :: "('n \<Rightarrow> string) \<Rightarrow> 'n json option \<Rightarrow> js_error + string" where
  "ToString_val nts None = Inr ''undefined''"
| "ToString_val nts (Some v) = ToString nts v"

text \<open>
  Reading \<^verbatim>\<open>data.video_url\<close> or \<^verbatim>\<open>data.error\<close>: \<^verbatim>\<open>null\<close> has no
  properties and the read throws; an object gives its own property or \<^verbatim>\<open>undefined\<close>;
  on every other value neither name is defined.
\<close>

fun get_prop :: "'n json \<Rightarrow> string \<Rightarrow> js_error + 'n json option" where
  "get_prop JNull k = Inl (TypeError (''Cannot read properties of null (reading '' @ k @ '')''))"
| "get_prop (JObj kvs) k = Inr (map_of kvs k)"
| "get_prop v k = Inr None"

subsection \<open>Serialising the request\<close>

definition hex_digit :: "nat \<Rightarrow> char" where
  "hex_digit d = (if d < 10 then char_of (48 + d) else char_of (87 + d))"

text \<open>
  The quoting of \<^verbatim>\<open>JSON.stringify\<close>: the quote, the backslash and the control
  characters are escaped, every other character stands for itself.
\<close>

definition json_escape_char :: "char \<Rightarrow> string" where
  "json_escape_char c =
     (if c = CHR 0x08 then [CHR 0x5C, CHR ''b'']
      else if c = CHR 0x09 then [CHR 0x5C, CHR ''t'']
      else if c = CHR 0x0A then [CHR 0x5C, CHR ''n'']
      else if c = CHR 0x0C then [CHR 0x5C, CHR ''f'']
      else if c = CHR 0x0D then [CHR 0x5C, CHR ''r'']
      else if c = CHR 0x22 then [CHR 0x5C, CHR 0x22]
      else if c = CHR 0x5C then [CHR 0x5C, CHR 0x5C]
      else if (of_char c :: nat) < 32
        then [CHR 0x5C, CHR ''u'', CHR ''0'', CHR ''0'',
              hex_digit (of_char c div 16), hex_digit (of_char c mod 16)]
      else [c])"

definition QuoteJSONString :: "string \<Rightarrow> string" where
  "QuoteJSONString s = CHR 0x22 # concat (map json_escape_char s) @ [CHR 0x22]"

text \<open>\<^verbatim>\<open>JSON.stringify\<close> of an object whose properties are strings.\<close>

definition JSON_stringify :: "(string \<times> string) list \<Rightarrow> string" where
  "JSON_stringify kvs =
     ''{'' @ join_comma (map (\<lambda>(k, v). QuoteJSONString k @ '':'' @ QuoteJSONString v) kvs) @ ''}''"

subsection \<open>The page and the effects on it\<close>

record video =
  src :: "string option"
  controls :: bool

text \<open>\<^verbatim>\<open>document.createElement('video')\<close>: no source, no controls.\<close>

definition createElement_video :: video where
  "createElement_video = \<lparr>src = None, controls = False\<rparr>"

text \<open>
  A node under the result area: the video element the script creates, an element or a
  text node that the browser has built from markup, or markup that the model of the
  browser's parser below does not cover, kept as it was assigned.
\<close>

datatype node =
    Video video
  | Element string "(string \<times> string) list" "node list"
  | Text string
  | Unparsed string

record request =
  req_url :: string
  req_method :: string
  req_headers :: "(string \<times> string) list"
  req_body :: string

record page =
  youtube_url :: "string option"
  result_area :: "node list"
  loader_display :: string
  status_text :: string
  alerts :: "string list"
  requests :: "request list"

datatype effect =
    Alert string
  | SetResultHTML string
  | SetLoaderDisplay string
  | SetStatusText string
  | Fetch request
  | AppendChild video

subsection \<open>Markup assigned to innerHTML\<close>

text \<open>
  Assigning \<^verbatim>\<open>innerHTML\<close> makes the browser parse the markup as a fragment and
  replace all children by the result. The parser is modelled for a part of HTML, with the
  result area taken to be an ordinary container such as a \<^verbatim>\<open>div\<close>: text, the
  character references \<^verbatim>\<open>&lt;\<close>, \<^verbatim>\<open>&gt;\<close>, \<^verbatim>\<open>&amp;\<close> and
  \<^verbatim>\<open>&quot;\<close>, and start and end tags of a few elements without a parsing rule of
  their own, in lower case, properly nested, with attributes in double quotes. The
  tokenizer reads one character at a time, as the browser's does; on anything outside
  that part it gives \<open>None\<close>.
\<close>

datatype tokenizer =
    Data
  | CharacterReference string
  | TagOpen
  | TagName string
  | BeforeAttributeName string "(string \<times> string) list"
  | AttributeName string "(string \<times> string) list" string
  | BeforeAttributeValue string "(string \<times> string) list" string
  | AttributeValue string "(string \<times> string) list" string string
  | AfterAttributeValue string "(string \<times> string) list"
  | EndTagOpen
  | EndTagName string

text \<open>
  The tree under construction: the children of the fragment so far, and the open elements
  with theirs, innermost first. Children are kept latest first until their element closes.
\<close>

type_synonym open_element = "string \<times> (string \<times> string) list \<times> node list"

type_synonym builder = "node list \<times> open_element list"

definition lower_alpha :: "char \<Rightarrow> bool" where
  "lower_alpha c = (97 \<le> (of_char c :: nat) \<and> (of_char c :: nat) \<le> 122)"

text \<open>A character that is text wherever it stands: not the start of a tag or of a
  character reference, and not one the parser drops or rewrites.\<close>

definition plain_char :: "char \<Rightarrow> bool" where
  "plain_char c = (c \<noteq> CHR ''<'' \<and> c \<noteq> CHR ''&'' \<and> c \<noteq> CHR 0x00 \<and> c \<noteq> CHR 0x0D)"

definition ordinary_elements :: "string list" where
  "ordinary_elements = [''div'', ''span'', ''b'', ''i'', ''em'', ''strong'']"

fun named_reference :: "string \<Rightarrow> char option" where
  "named_reference n =
     (if n = ''lt'' then Some CHR ''<''
      else if n = ''gt'' then Some CHR ''>''
      else if n = ''amp'' then Some CHR ''&''
      else if n = ''quot'' then Some CHR 0x22
      else None)"

text \<open>A character joins the text node before it, if there is one.\<close>

fun add_char :: "char \<Rightarrow> node list \<Rightarrow> node list" where
  "add_char c (Text t # ns) = Text (t @ [c]) # ns"
| "add_char c ns = Text [c] # ns"

fun insert_char :: "char \<Rightarrow> builder \<Rightarrow> builder" where
  "insert_char c (root, []) = (add_char c root, [])"
| "insert_char c (root, (n, ats, ch) # st) = (root, (n, ats, add_char c ch) # st)"

fun insert_node :: "node \<Rightarrow> builder \<Rightarrow> builder" where
  "insert_node x (root, []) = (x # root, [])"
| "insert_node x (root, (n, ats, ch) # st) = (root, (n, ats, x # ch) # st)"

definition start_tag :: "string \<Rightarrow> (string \<times> string) list \<Rightarrow> builder \<Rightarrow> (tokenizer \<times> builder) option" where
  "start_tag n ats b =
     (if n \<in> set ordinary_elements then Some (Data, (fst b, (n, ats, []) # snd b)) else None)"

fun end_tag :: "string \<Rightarrow> builder \<Rightarrow> (tokenizer \<times> builder) option" where
  "end_tag n (root, []) = None"
| "end_tag n (root, (m, ats, ch) # st) =
     (if n = m then Some (Data, insert_node (Element m ats (rev ch)) (root, st)) else None)"

definition add_attribute :: "string \<Rightarrow> string \<Rightarrow> (string \<times> string) list \<Rightarrow> (string \<times> string) list" where
  "add_attribute a v ats = (if map_of ats a = None then ats @ [(a, v)] else ats)"

fun consume :: "char \<Rightarrow> tokenizer \<times> builder \<Rightarrow> (tokenizer \<times> builder) option" where
  "consume c (Data, b) =
     (if c = CHR ''<'' then Some (TagOpen, b)
      else if c = CHR ''&'' then Some (CharacterReference [], b)
      else if plain_char c then Some (Data, insert_char c b)
      else None)"
| "consume c (CharacterReference r, b) =
     (if c = CHR '';'' then
        (case named_reference r of
           None \<Rightarrow> None
         | Some d \<Rightarrow> Some (Data, insert_char d b))
      else if lower_alpha c then Some (CharacterReference (r @ [c]), b)
      else None)"
| "consume c (TagOpen, b) =
     (if c = CHR ''/'' then Some (EndTagOpen, b)
      else if lower_alpha c then Some (TagName [c], b)
      else None)"
| "consume c (TagName n, b) =
     (if c = CHR ''>'' then start_tag n [] b
      else if c = CHR '' '' then Some (BeforeAttributeName n [], b)
      else if lower_alpha c then Some (TagName (n @ [c]), b)
      else None)"
| "consume c (BeforeAttributeName n ats, b) =
     (if c = CHR ''>'' then start_tag n ats b
      else if c = CHR '' '' then Some (BeforeAttributeName n ats, b)
      else if lower_alpha c then Some (AttributeName n ats [c], b)
      else None)"
| "consume c (AttributeName n ats a, b) =
     (if c = CHR ''='' then Some (BeforeAttributeValue n ats a, b)
      else if lower_alpha c \<or> c = CHR ''-'' then Some (AttributeName n ats (a @ [c]), b)
      else None)"
| "consume c (BeforeAttributeValue n ats a, b) =
     (if c = CHR 0x22 then Some (AttributeValue n ats a [], b) else None)"
| "consume c (AttributeValue n ats a v, b) =
     (if c = CHR 0x22 then Some (AfterAttributeValue n (add_attribute a v ats), b)
      else if plain_char c then Some (AttributeValue n ats a (v @ [c]), b)
      else None)"
| "consume c (AfterAttributeValue n ats, b) =
     (if c = CHR ''>'' then start_tag n ats b
      else if c = CHR '' '' then Some (BeforeAttributeName n ats, b)
      else None)"
| "consume c (EndTagOpen, b) =
     (if lower_alpha c then Some (EndTagName [c], b) else None)"
| "consume c (EndTagName n, b) =
     (if c = CHR ''>'' then end_tag n b
      else if lower_alpha c then Some (EndTagName (n @ [c]), b)
      else None)"

fun tokenize :: "string \<Rightarrow> tokenizer \<times> builder \<Rightarrow> (tokenizer \<times> builder) option" where
  "tokenize [] s = Some s"
| "tokenize (c # cs) s =
     (case consume c s of
        None \<Rightarrow> None
      | Some s' \<Rightarrow> tokenize cs s')"

text \<open>At the end of the markup the elements still open are closed.\<close>

fun end_of_input :: "node list \<Rightarrow> open_element list \<Rightarrow> node list" where
  "end_of_input root [] = rev root"
| "end_of_input root [(n, ats, ch)] = rev (Element n ats (rev ch) # root)"
| "end_of_input root ((n, ats, ch) # (m, bts, dh) # st) =
     end_of_input root ((m, bts, Element n ats (rev ch) # dh) # st)"

definition parse_fragment :: "string \<Rightarrow> node list option" where
  "parse_fragment m =
     (case tokenize m (Data, ([], [])) of
        Some (Data, (root, st)) \<Rightarrow> Some (end_of_input root st)
      | _ \<Rightarrow> None)"

definition set_innerHTML :: "string \<Rightarrow> node list" where
  "set_innerHTML m =
     (case parse_fragment m of
        Some ns \<Rightarrow> ns
      | None \<Rightarrow> [Unparsed m])"

text \<open>\<^verbatim>\<open>textContent\<close>: the text nodes in document order; unknown for unparsed markup.\<close>

fun textContent :: "node \<Rightarrow> string option"
  and textContents :: "node list \<Rightarrow> string option" where
  "textContent (Video v) = Some []"
| "textContent (Element n ats ch) = textContents ch"
| "textContent (Text t) = Some t"
| "textContent (Unparsed m) = None"
| "textContents [] = Some []"
| "textContents (x # xs) =
     (case textContent x of
        None \<Rightarrow> None
      | Some s \<Rightarrow>
          (case textContents xs of
             None \<Rightarrow> None
           | Some t \<Rightarrow> Some (s @ t)))"



fun apply_effect :: "effect \<Rightarrow> page \<Rightarrow> page" where
  "apply_effect (Alert m) p = p\<lparr>alerts := alerts p @ [m]\<rparr>"
| "apply_effect (SetResultHTML m) p = p\<lparr>result_area := set_innerHTML m\<rparr>"
| "apply_effect (SetLoaderDisplay d) p = p\<lparr>loader_display := d\<rparr>"
| "apply_effect (SetStatusText t) p = p\<lparr>status_text := t\<rparr>"
| "apply_effect (Fetch r) p = p\<lparr>requests := requests p @ [r]\<rparr>"
| "apply_effect (AppendChild v) p = p\<lparr>result_area := result_area p @ [Video v]\<rparr>"

fun run :: "effect list \<Rightarrow> page \<Rightarrow> page" where
  "run [] p = p"
| "run (e # es) p = run es (apply_effect e p)"

text \<open>The pages after each effect, the first being the page at the start.\<close>

fun states :: "effect list \<Rightarrow> page \<Rightarrow> page list" where
  "states [] p = [p]"
| "states (e # es) p = p # states es (apply_effect e p)"

text \<open>What a list of effects contains of each kind.\<close>

fun fetched :: "effect list \<Rightarrow> request list" where
  "fetched [] = []"
| "fetched (Fetch r # es) = r # fetched es"
| "fetched (e # es) = fetched es"

fun alerted :: "effect list \<Rightarrow> string list" where
  "alerted [] = []"
| "alerted (Alert m # es) = m # alerted es"
| "alerted (e # es) = alerted es"

fun status_written :: "effect list \<Rightarrow> string list" where
  "status_written [] = []"
| "status_written (SetStatusText t # es) = t # status_written es"
| "status_written (e # es) = status_written es"

text \<open>The video elements among the children of the result area.\<close>

fun videos :: "node list \<Rightarrow> video list" where
  "videos [] = []"
| "videos (Video v # ns) = v # videos ns"
| "videos (n # ns) = videos ns"

subsection \<open>The answer of the service\<close>

text \<open>
  A response has a status and a body; \<^verbatim>\<open>response.json()\<close> gives the parsed body or
  throws. \<^verbatim>\<open>response.ok\<close> holds for the statuses 200 to 299.
\<close>

record 'n response =
  status :: nat
  json_body :: "js_error + 'n json"

definition ok :: "'n response \<Rightarrow> bool" where
  "ok r = (200 \<le> status r \<and> status r \<le> 299)"

datatype 'n fetch_result =
    Rejected js_error
  | Resolved "'n response"

subsection \<open>The handler\<close>

datatype progress = Returned | Suspended

text \<open>\<^verbatim>\<open>!url\<close>: an absent value and the empty string are falsy.\<close>

fun falsy :: "string option \<Rightarrow> bool" where
  "falsy None = True"
| "falsy (Some s) = (s = [])"

text \<open>
  The argument of \<^verbatim>\<open>fetch\<close>. \<^verbatim>\<open>JSON.stringify\<close> leaves out a property
  whose value is \<^verbatim>\<open>undefined\<close>.
\<close>

definition fetch_request :: "string option \<Rightarrow> request" where
  "fetch_request url =
     \<lparr>req_url = ''http://127.0.0.1:5000/clip'',
      req_method = ''POST'',
      req_headers = [(''Content-Type'', ''application/json'')],
      req_body = JSON_stringify (case url of None \<Rightarrow> [] | Some u \<Rightarrow> [(''url'', u)])\<rparr>"

text \<open>From the click to the first \<^verbatim>\<open>await\<close>.\<close>

definition handler_begin :: "page \<Rightarrow> progress \<times> effect list" where
  "handler_begin p =
     (let url = youtube_url p in
      if falsy url then (Returned, [Alert ''Please enter a YouTube URL.''])
      else (Suspended,
            [SetResultHTML [],
             SetLoaderDisplay ''flex'',
             SetStatusText ''Processing...'',
             Fetch (fetch_request url)]))"

definition error_markup :: "string \<Rightarrow> string" where
  "error_markup e =
     ''<div class='' @ [CHR 0x22] @ ''error-message'' @ [CHR 0x22] @ ''>Error: '' @ e @ ''</div>''"

definition unexpected_markup :: string where
  "unexpected_markup =
     ''<div class='' @ [CHR 0x22] @ ''error-message'' @ [CHR 0x22]
       @ ''>An unexpected error occurred. Please check the console.</div>''"

text \<open>
  The body of the \<^verbatim>\<open>try\<close>: the error that is thrown, or the effects when nothing
  is thrown. Reading a property of \<^verbatim>\<open>data\<close> and converting the value to a string
  can both throw, and both come before the statement that writes to the page.
\<close>

definition try_block :: "('n \<Rightarrow> string) \<Rightarrow> 'n fetch_result \<Rightarrow> js_error + effect list" where
  "try_block nts fr =
     (case fr of
        Rejected e \<Rightarrow> Inl e
      | Resolved response \<Rightarrow>
          (case json_body response of
             Inl e \<Rightarrow> Inl e
           | Inr data \<Rightarrow>
               if ok response then
                 (case get_prop data ''video_url'' of
                    Inl e \<Rightarrow> Inl e
                  | Inr v \<Rightarrow>
                      (case ToString_val nts v of
                         Inl e \<Rightarrow> Inl e
                       | Inr s \<Rightarrow>
                           Inr [AppendChild
                                  (createElement_video
                                     \<lparr>src := Some s, controls := True\<rparr>)]))
               else
                 (case get_prop data ''error'' of
                    Inl e \<Rightarrow> Inl e
                  | Inr v \<Rightarrow>
                      (case ToString_val nts v of
                         Inl e \<Rightarrow> Inl e
                       | Inr s \<Rightarrow> Inr [SetResultHTML (error_markup s)]))))"

text \<open>From the settled request to the end: the \<^verbatim>\<open>try\<close>, its \<^verbatim>\<open>catch\<close>, and the last line.\<close>

definition handler_resume :: "('n \<Rightarrow> string) \<Rightarrow> 'n fetch_result \<Rightarrow> effect list" where
  "handler_resume nts fr =
     (case try_block nts fr of
        Inl e \<Rightarrow> [SetResultHTML unexpected_markup]
      | Inr es \<Rightarrow> es)
     @ [SetLoaderDisplay ''none'']"

text \<open>All effects of one invocation whose request settles with \<open>fr\<close>.\<close>

definition handler_effects :: "('n \<Rightarrow> string) \<Rightarrow> 'n fetch_result \<Rightarrow> page \<Rightarrow> effect list" where
  "handler_effects nts fr p =
     (case handler_begin p of
        (Returned, es) \<Rightarrow> es
      | (Suspended, es) \<Rightarrow> es @ handler_resume nts fr)"

text \<open>The two tasks as functions on the page, and an invocation that nothing interleaves with.\<close>

definition click_begin :: "page \<Rightarrow> page" where
  "click_begin p = run (snd (handler_begin p)) p"

definition click_resume :: "('n \<Rightarrow> string) \<Rightarrow> 'n fetch_result \<Rightarrow> page \<Rightarrow> page" where
  "click_resume nts fr p = run (handler_resume nts fr) p"

definition click :: "('n \<Rightarrow> string) \<Rightarrow> 'n fetch_result \<Rightarrow> page \<Rightarrow> page" where
  "click nts fr p = run (handler_effects nts fr p) p"

section \<open>Properties of the handler\<close>

subsection \<open>What the parser builds\<close>

lemma set_innerHTML_empty: "set_innerHTML [] = []"
  by (simp add: set_innerHTML_def parse_fragment_def)






lemma unexpected_markup_parsed:
  "set_innerHTML unexpected_markup =
    [Element ''div'' [(''class'', ''error-message'')]
       [Text ''An unexpected error occurred. Please check the console.'']]"
  by (simp add: unexpected_markup_def set_innerHTML_def parse_fragment_def lower_alpha_def
      plain_char_def start_tag_def ordinary_elements_def add_attribute_def)



subsection \<open>Shape of the two tasks\<close>

lemma run_append: "run (es @ fs) p = run fs (run es p)"
  by (induction es arbitrary: p) simp_all

lemma begin_falsy:
  "falsy (youtube_url p) \<Longrightarrow>
   handler_begin p = (Returned, [Alert ''Please enter a YouTube URL.''])"
  by (simp add: handler_begin_def)

lemma begin_nonempty:
  "youtube_url p = Some v \<Longrightarrow> v \<noteq> [] \<Longrightarrow>
   handler_begin p =
     (Suspended,
      [SetResultHTML [], SetLoaderDisplay ''flex'', SetStatusText ''Processing...'',
       Fetch (fetch_request (Some v))])"
  by (simp add: handler_begin_def)

lemma effects_falsy:
  "falsy (youtube_url p) \<Longrightarrow>
   handler_effects nts fr p = [Alert ''Please enter a YouTube URL.'']"
  by (simp add: handler_effects_def begin_falsy)

lemma effects_nonempty:
  "youtube_url p = Some v \<Longrightarrow> v \<noteq> [] \<Longrightarrow>
   handler_effects nts fr p =
     [SetResultHTML [], SetLoaderDisplay ''flex'', SetStatusText ''Processing...'',
      Fetch (fetch_request (Some v))] @ handler_resume nts fr"
  by (simp add: handler_effects_def begin_nonempty)

lemma begin_page:
  "youtube_url p = Some v \<Longrightarrow> v \<noteq> [] \<Longrightarrow>
   click_begin p =
     p\<lparr>result_area := [], loader_display := ''flex'', status_text := ''Processing...'',
       requests := requests p @ [fetch_request (Some v)]\<rparr>"
  by (simp add: click_begin_def begin_nonempty set_innerHTML_empty)

lemma click_split:
  "youtube_url p = Some v \<Longrightarrow> v \<noteq> [] \<Longrightarrow>
   click nts fr p = click_resume nts fr (click_begin p)"
  by (simp add: click_def click_resume_def click_begin_def effects_nonempty begin_nonempty
      run_append del: append.simps run.simps)

text \<open>Whatever the request settles with, the second task is one write to the result area
  followed by hiding the loader.\<close>

lemma resume_shape:
  "handler_resume nts fr = [SetResultHTML unexpected_markup, SetLoaderDisplay ''none'']
   \<or> (\<exists>v. handler_resume nts fr = [AppendChild v, SetLoaderDisplay ''none''])
   \<or> (\<exists>e. handler_resume nts fr = [SetResultHTML (error_markup e), SetLoaderDisplay ''none''])"
  by (auto simp add: handler_resume_def try_block_def split: fetch_result.splits sum.splits)

lemma resume_thrown:
  "try_block nts fr = Inl e \<Longrightarrow>
   handler_resume nts fr = [SetResultHTML unexpected_markup, SetLoaderDisplay ''none'']"
  by (simp add: handler_resume_def)

lemma resume_page_thrown:
  "try_block nts fr = Inl e \<Longrightarrow>
   click_resume nts fr q =
     q\<lparr>result_area :=
         [Element ''div'' [(''class'', ''error-message'')]
            [Text ''An unexpected error occurred. Please check the console.'']],
       loader_display := ''none''\<rparr>"
  by (simp add: click_resume_def resume_thrown unexpected_markup_parsed)

lemma resume_success:
  "ok response \<Longrightarrow> json_body response = Inr data \<Longrightarrow>
   get_prop data ''video_url'' = Inr x \<Longrightarrow> ToString_val nts x = Inr s \<Longrightarrow>
   handler_resume nts (Resolved response) =
     [AppendChild \<lparr>src = Some s, controls = True\<rparr>, SetLoaderDisplay ''none'']"
  by (simp add: handler_resume_def try_block_def createElement_video_def)


text \<open>The second task writes to the result area and to the loader, and to nothing else.\<close>

lemma resume_loader: "loader_display (click_resume nts fr q) = ''none''"
  using resume_shape [of nts fr] by (auto simp add: click_resume_def)

lemma resume_status: "status_text (click_resume nts fr q) = status_text q"
  using resume_shape [of nts fr] by (auto simp add: click_resume_def)

lemma resume_requests: "requests (click_resume nts fr q) = requests q"
  using resume_shape [of nts fr] by (auto simp add: click_resume_def)

lemma resume_alerts: "alerts (click_resume nts fr q) = alerts q"
  using resume_shape [of nts fr] by (auto simp add: click_resume_def)

lemma resume_no_fetch: "fetched (handler_resume nts fr) = []"
  using resume_shape [of nts fr] by auto

lemma resume_no_alert: "alerted (handler_resume nts fr) = []"
  using resume_shape [of nts fr] by auto

lemma resume_no_status: "status_written (handler_resume nts fr) = []"
  using resume_shape [of nts fr] by auto

lemma resume_last: "last (handler_resume nts fr) = SetLoaderDisplay ''none''"
  by (simp add: handler_resume_def)

lemma quote_url: "QuoteJSONString ''url'' = [CHR 0x22] @ ''url'' @ [CHR 0x22]"
  by (simp add: QuoteJSONString_def json_escape_char_def)

subsection \<open>Rendering the answer\<close>

text \<open>
  C1, as amended. For an invocation with a non-empty input value whose response has a 2xx
  status and a JSON object with \<^verbatim>\<open>video_url\<close> the string \<open>X\<close>: the second task
  appends one video element with source \<open>X\<close> and controls to whatever the result area
  holds when the handler resumes; when nothing runs between the two tasks, the result
  area then holds exactly that one element.
\<close>

theorem success_appends_video:
  assumes "youtube_url p = Some v" and "v \<noteq> []"
    and "ok response" and "json_body response = Inr (JObj kvs)"
    and "map_of kvs ''video_url'' = Some (JStr X)"
  shows "result_area (click_resume nts (Resolved response) q) =
           result_area q @ [Video \<lparr>src = Some X, controls = True\<rparr>]
         \<and> result_area (click nts (Resolved response) p) =
           [Video \<lparr>src = Some X, controls = True\<rparr>]"
proof -
  have shape: "handler_resume nts (Resolved response) =
      [AppendChild \<lparr>src = Some X, controls = True\<rparr>, SetLoaderDisplay ''none'']"
    using resume_success [of response "JObj kvs" "Some (JStr X)" nts X] assms by simp
  have resumed: "result_area (click_resume nts (Resolved response) q') =
      result_area q' @ [Video \<lparr>src = Some X, controls = True\<rparr>]" for q'
    by (simp add: click_resume_def shape)
  have "result_area (click_begin p) = []"
    using assms(1,2) by (simp add: begin_page)
  then show ?thesis
    using resumed [of q] resumed [of "click_begin p"]
      click_split [OF assms(1,2), of nts "Resolved response"] by simp
qed

theorem success_appends_video_witness:
  "ok \<lparr>status = 200, json_body = Inr (JObj [(''video_url'', JStr ''X'')])\<rparr>
   \<and> result_area
        (click id
           (Resolved \<lparr>status = 200, json_body = Inr (JObj [(''video_url'', JStr ''X'')])\<rparr>)
           \<lparr>youtube_url = Some ''https://youtu.be/abc'', result_area = [Text ''old''],
            loader_display = [], status_text = [], alerts = [], requests = []\<rparr>)
       = [Video \<lparr>src = Some ''X'', controls = True\<rparr>]"
  using success_appends_video
    [where p = "\<lparr>youtube_url = Some ''https://youtu.be/abc'', result_area = [Text ''old''],
                 loader_display = [], status_text = [], alerts = [], requests = []\<rparr>"
       and v = "''https://youtu.be/abc''"
       and response = "\<lparr>status = 200, json_body = Inr (JObj [(''video_url'', JStr ''X'')])\<rparr>"
       and kvs = "[(''video_url'', JStr ''X'')]" and X = "''X''" and nts = id]
  by (simp add: ok_def)

text \<open>
  C1, as stated, fails when two invocations overlap: the first click's request is still
  pending when the second click comes, both answers are 2xx with the same
  \<^verbatim>\<open>video_url\<close>, and after the second handler has finished the result area holds
  two video elements.
\<close>

theorem overlapping_clicks_two_videos:
  "videos (result_area
     (click_resume id
        (Resolved \<lparr>status = 200, json_body = Inr (JObj [(''video_url'', JStr ''X'')])\<rparr>)
        (click_resume id
           (Resolved \<lparr>status = 200, json_body = Inr (JObj [(''video_url'', JStr ''X'')])\<rparr>)
           (click_begin
              (click_begin
                 \<lparr>youtube_url = Some ''https://youtu.be/abc'', result_area = [],
                  loader_display = [], status_text = [], alerts = [], requests = []\<rparr>)))))
   = [\<lparr>src = Some ''X'', controls = True\<rparr>, \<lparr>src = Some ''X'', controls = True\<rparr>]"
  by (simp add: click_resume_def click_begin_def handler_begin_def handler_resume_def
      try_block_def ok_def createElement_video_def set_innerHTML_empty)

subsection \<open>The request\<close>

text \<open>
  C2. For an invocation with a non-empty input value \<open>v\<close>, whatever the request
  settles with: the handler calls \<^verbatim>\<open>fetch\<close> exactly once, with the method POST,
  the address \<^verbatim>\<open>http://127.0.0.1:5000/clip\<close>, the header
  \<^verbatim>\<open>Content-Type: application/json\<close> and the body
  \<^verbatim>\<open>JSON.stringify({ url: v })\<close>, an object with the one member \<^verbatim>\<open>url\<close>
  and the quoted \<open>v\<close> as its value.
\<close>

theorem one_post_request:
  assumes "youtube_url p = Some v" and "v \<noteq> []"
  shows "fetched (handler_effects nts fr p) =
           [\<lparr>req_url = ''http://127.0.0.1:5000/clip'', req_method = ''POST'',
             req_headers = [(''Content-Type'', ''application/json'')],
             req_body = JSON_stringify [(''url'', v)]\<rparr>]
         \<and> requests (click nts fr p) =
           requests p @
           [\<lparr>req_url = ''http://127.0.0.1:5000/clip'', req_method = ''POST'',
             req_headers = [(''Content-Type'', ''application/json'')],
             req_body = JSON_stringify [(''url'', v)]\<rparr>]
         \<and> JSON_stringify [(''url'', v)] =
           ''{'' @ [CHR 0x22] @ ''url'' @ [CHR 0x22] @ '':'' @ QuoteJSONString v @ ''}''"
proof -
  have issued: "fetched (handler_effects nts fr p) = [fetch_request (Some v)]"
    using assms by (simp add: effects_nonempty resume_no_fetch)
  have logged: "requests (click nts fr p) = requests p @ [fetch_request (Some v)]"
    using assms click_split [OF assms, of nts fr]
    by (simp add: resume_requests begin_page)
  have body: "JSON_stringify [(''url'', v)] =
      ''{'' @ [CHR 0x22] @ ''url'' @ [CHR 0x22] @ '':'' @ QuoteJSONString v @ ''}''"
    using quote_url by (simp add: JSON_stringify_def)
  show ?thesis
    using issued logged body by (simp add: fetch_request_def)
qed

theorem one_post_request_witness:
  "fetched
     (handler_effects id (Rejected (TypeError ''Failed to fetch''))
        \<lparr>youtube_url = Some ''https://youtu.be/abc'', result_area = [Text ''old''],
         loader_display = [], status_text = [], alerts = [], requests = []\<rparr>)
   = [\<lparr>req_url = ''http://127.0.0.1:5000/clip'', req_method = ''POST'',
       req_headers = [(''Content-Type'', ''application/json'')],
       req_body = ''{'' @ [CHR 0x22] @ ''url'' @ [CHR 0x22] @ '':'' @ [CHR 0x22]
                  @ ''https://youtu.be/abc'' @ [CHR 0x22] @ ''}''\<rparr>]"
  using one_post_request
    [where p = "\<lparr>youtube_url = Some ''https://youtu.be/abc'', result_area = [Text ''old''],
                 loader_display = [], status_text = [], alerts = [], requests = []\<rparr>"
       and v = "''https://youtu.be/abc''"
       and fr = "Rejected (TypeError ''Failed to fetch'')"
       and nts = "id :: string \<Rightarrow> string"]
  by (simp add: QuoteJSONString_def json_escape_char_def)

subsection \<open>Rendering an error\<close>




text \<open>
  C4. For an invocation with a non-empty input value whose request is rejected, or whose
  response body does not parse as JSON: when the handler has finished, the result area
  holds the generic message, an element of the class \<^verbatim>\<open>error-message\<close> with a
  fixed text; the page is the same whatever was thrown.
\<close>

theorem thrown_renders_generic:
  assumes "youtube_url p = Some v" and "v \<noteq> []"
    and "json_body response = Inl e'"
  shows "result_area (click nts (Rejected e) p) =
           [Element ''div'' [(''class'', ''error-message'')]
              [Text ''An unexpected error occurred. Please check the console.'']]
         \<and> result_area (click nts (Resolved response) p) =
           [Element ''div'' [(''class'', ''error-message'')]
              [Text ''An unexpected error occurred. Please check the console.'']]
         \<and> click nts (Rejected e) p = click nts (Rejected d) p
         \<and> click nts (Resolved response) p = click nts (Rejected d) p"
proof -
  have rejected: "try_block nts (Rejected x) = Inl x" for x
    by (simp add: try_block_def)
  have unparsed: "try_block nts (Resolved response) = Inl e'"
    using assms(3) by (simp add: try_block_def)
  show ?thesis
    using resume_page_thrown [OF rejected, of e "click_begin p"]
      resume_page_thrown [OF rejected, of d "click_begin p"]
      resume_page_thrown [OF unparsed, of "click_begin p"]
      click_split [OF assms(1,2), of nts "Rejected e"]
      click_split [OF assms(1,2), of nts "Rejected d"]
      click_split [OF assms(1,2), of nts "Resolved response"]
    by simp
qed

theorem thrown_renders_generic_witness:
  "result_area
     (click id (Rejected (TypeError ''Failed to fetch''))
        \<lparr>youtube_url = Some ''https://youtu.be/abc'', result_area = [Text ''old''],
         loader_display = [], status_text = [], alerts = [], requests = []\<rparr>)
     = [Element ''div'' [(''class'', ''error-message'')]
          [Text ''An unexpected error occurred. Please check the console.'']]
   \<and> result_area
     (click id
        (Resolved \<lparr>status = 200,
                   json_body = Inl (SyntaxError ''Unexpected token < in JSON at position 0'')\<rparr>)
        \<lparr>youtube_url = Some ''https://youtu.be/abc'', result_area = [Text ''old''],
         loader_display = [], status_text = [], alerts = [], requests = []\<rparr>)
     = [Element ''div'' [(''class'', ''error-message'')]
          [Text ''An unexpected error occurred. Please check the console.'']]"
  using thrown_renders_generic
    [where p = "\<lparr>youtube_url = Some ''https://youtu.be/abc'', result_area = [Text ''old''],
                 loader_display = [], status_text = [], alerts = [], requests = []\<rparr>"
       and v = "''https://youtu.be/abc''"
       and response = "\<lparr>status = 200,
            json_body = Inl (SyntaxError ''Unexpected token < in JSON at position 0'')\<rparr>"
       and e' = "SyntaxError ''Unexpected token < in JSON at position 0''"
       and e = "TypeError ''Failed to fetch''" and nts = "id :: string \<Rightarrow> string"]
  by simp

subsection \<open>The empty input\<close>

text \<open>
  C5. For an invocation whose input value is empty or absent: the handler opens the alert
  and returns, and that is all it does. No request is made, and the result area, the
  loader and the status text are as they were.
\<close>

theorem empty_input_only_alerts:
  assumes "falsy (youtube_url p)"
  shows "handler_begin p = (Returned, [Alert ''Please enter a YouTube URL.''])
         \<and> handler_effects nts fr p = [Alert ''Please enter a YouTube URL.'']
         \<and> click nts fr p = p\<lparr>alerts := alerts p @ [''Please enter a YouTube URL.'']\<rparr>
         \<and> requests (click nts fr p) = requests p
         \<and> result_area (click nts fr p) = result_area p
         \<and> loader_display (click nts fr p) = loader_display p
         \<and> status_text (click nts fr p) = status_text p"
  using assms by (simp add: begin_falsy effects_falsy click_def)

theorem empty_input_only_alerts_witness:
  "falsy (youtube_url
      \<lparr>youtube_url = Some [], result_area = [Text ''old''], loader_display = ''none'',
       status_text = ''Processing...'', alerts = [], requests = []\<rparr>)
   \<and> click id (Rejected (TypeError ''Failed to fetch''))
        \<lparr>youtube_url = Some [], result_area = [Text ''old''], loader_display = ''none'',
         status_text = ''Processing...'', alerts = [], requests = []\<rparr>
     = \<lparr>youtube_url = Some [], result_area = [Text ''old''], loader_display = ''none'',
        status_text = ''Processing...'', alerts = [''Please enter a YouTube URL.''],
        requests = []\<rparr>"
  using empty_input_only_alerts
    [where p = "\<lparr>youtube_url = Some [], result_area = [Text ''old''],
                 loader_display = ''none'', status_text = ''Processing...'', alerts = [],
                 requests = []\<rparr>"
       and fr = "Rejected (TypeError ''Failed to fetch'')"
       and nts = "id :: string \<Rightarrow> string"]
  by simp

text \<open>
  C6, as amended. For every input value that is empty or absent, no request is issued and
  the alert is opened.
\<close>

theorem empty_input_no_request:
  assumes "falsy (youtube_url p)"
  shows "fetched (handler_effects nts fr p) = []
         \<and> alerted (handler_effects nts fr p) = [''Please enter a YouTube URL.'']
         \<and> requests (click nts fr p) = requests p
         \<and> alerts (click nts fr p) = alerts p @ [''Please enter a YouTube URL.'']"
  using assms by (simp add: effects_falsy click_def)

theorem empty_input_no_request_witness:
  "falsy (youtube_url
      \<lparr>youtube_url = Some [], result_area = [], loader_display = [], status_text = [],
       alerts = [], requests = []\<rparr>)
   \<and> fetched
        (handler_effects id (Rejected (TypeError ''Failed to fetch''))
           \<lparr>youtube_url = Some [], result_area = [], loader_display = [], status_text = [],
            alerts = [], requests = []\<rparr>) = []
   \<and> alerted
        (handler_effects id (Rejected (TypeError ''Failed to fetch''))
           \<lparr>youtube_url = Some [], result_area = [], loader_display = [], status_text = [],
            alerts = [], requests = []\<rparr>) = [''Please enter a YouTube URL.'']"
  using empty_input_no_request
    [where p = "\<lparr>youtube_url = Some [], result_area = [], loader_display = [],
                 status_text = [], alerts = [], requests = []\<rparr>"
       and fr = "Rejected (TypeError ''Failed to fetch'')"
       and nts = "id :: string \<Rightarrow> string"]
  by simp

text \<open>
  C6, as stated, fails for a value that consists only of whitespace: a single space is
  not empty, so the handler opens no alert and posts it.
\<close>

theorem whitespace_input_is_posted:
  "alerted
     (handler_effects id (Rejected (TypeError ''Failed to fetch''))
        \<lparr>youtube_url = Some '' '', result_area = [], loader_display = [], status_text = [],
         alerts = [], requests = []\<rparr>) = []
   \<and> fetched
     (handler_effects id (Rejected (TypeError ''Failed to fetch''))
        \<lparr>youtube_url = Some '' '', result_area = [], loader_display = [], status_text = [],
         alerts = [], requests = []\<rparr>)
     = [\<lparr>req_url = ''http://127.0.0.1:5000/clip'', req_method = ''POST'',
         req_headers = [(''Content-Type'', ''application/json'')],
         req_body = ''{'' @ [CHR 0x22] @ ''url'' @ [CHR 0x22] @ '':'' @ [CHR 0x22]
                    @ '' '' @ [CHR 0x22] @ ''}''\<rparr>]"
  by (simp add: handler_effects_def handler_begin_def resume_no_fetch resume_no_alert
      fetch_request_def JSON_stringify_def QuoteJSONString_def json_escape_char_def)

subsection \<open>The loader and the status text\<close>

text \<open>
  C7. For an invocation with a non-empty input value, whatever the request settles with
  (a 2xx response, another response, a rejection or a body that does not parse): hiding
  the loader is the last thing the handler does, and the loader is hidden when it has
  finished, also when other invocations have run while it was waiting.
\<close>

theorem loader_hidden_at_end:
  assumes "youtube_url p = Some v" and "v \<noteq> []"
  shows "last (handler_effects nts fr p) = SetLoaderDisplay ''none''
         \<and> loader_display (click nts fr p) = ''none''
         \<and> loader_display (click_resume nts fr q) = ''none''"
proof -
  have "handler_resume nts fr \<noteq> []"
    by (simp add: handler_resume_def)
  then have "last (handler_effects nts fr p) = SetLoaderDisplay ''none''"
    using assms by (simp add: effects_nonempty resume_last)
  then show ?thesis
    using click_split [OF assms, of nts fr] by (simp add: resume_loader)
qed

theorem loader_hidden_at_end_witness:
  "loader_display
     (click id
        (Resolved \<lparr>status = 200, json_body = Inr (JObj [(''video_url'', JStr ''X'')])\<rparr>)
        \<lparr>youtube_url = Some ''https://youtu.be/abc'', result_area = [Text ''old''],
         loader_display = ''flex'', status_text = [], alerts = [], requests = []\<rparr>) = ''none''
   \<and> loader_display
     (click id
        (Resolved \<lparr>status = 500, json_body = Inr (JObj [(''error'', JStr ''bad url'')])\<rparr>)
        \<lparr>youtube_url = Some ''https://youtu.be/abc'', result_area = [Text ''old''],
         loader_display = ''flex'', status_text = [], alerts = [], requests = []\<rparr>) = ''none''
   \<and> loader_display
     (click id (Rejected (TypeError ''Failed to fetch''))
        \<lparr>youtube_url = Some ''https://youtu.be/abc'', result_area = [Text ''old''],
         loader_display = ''flex'', status_text = [], alerts = [], requests = []\<rparr>) = ''none''"
  using
    loader_hidden_at_end
      [where p = "\<lparr>youtube_url = Some ''https://youtu.be/abc'', result_area = [Text ''old''],
         loader_display = ''flex'', status_text = [], alerts = [], requests = []\<rparr>"
         and v = "''https://youtu.be/abc''"
         and fr = "Resolved \<lparr>status = 200,
                      json_body = Inr (JObj [(''video_url'', JStr ''X'')])\<rparr>"
         and nts = "id :: string \<Rightarrow> string"]
    loader_hidden_at_end
      [where p = "\<lparr>youtube_url = Some ''https://youtu.be/abc'', result_area = [Text ''old''],
         loader_display = ''flex'', status_text = [], alerts = [], requests = []\<rparr>"
         and v = "''https://youtu.be/abc''"
         and fr = "Resolved \<lparr>status = 500,
                      json_body = Inr (JObj [(''error'', JStr ''bad url'')])\<rparr>"
         and nts = "id :: string \<Rightarrow> string"]
    loader_hidden_at_end
      [where p = "\<lparr>youtube_url = Some ''https://youtu.be/abc'', result_area = [Text ''old''],
         loader_display = ''flex'', status_text = [], alerts = [], requests = []\<rparr>"
         and v = "''https://youtu.be/abc''"
         and fr = "Rejected (TypeError ''Failed to fetch'')"
         and nts = "id :: string \<Rightarrow> string"]
  by simp

text \<open>
  C8, as amended. For an invocation with a non-empty input value: when the response body
  does not parse as JSON, or a 2xx response has the body \<^verbatim>\<open>null\<close>, the handler
  renders the generic message. When a 2xx response has a JSON object without
  \<^verbatim>\<open>video_url\<close>, nothing is thrown: the handler appends a video element with
  controls whose source is the text \<^verbatim>\<open>undefined\<close>.
\<close>

theorem missing_field_and_unparsed_body:
  assumes "youtube_url p = Some v" and "v \<noteq> []"
  shows "(json_body r1 = Inl e \<longrightarrow>
            result_area (click nts (Resolved r1) p) = [Element ''div'' [(''class'', ''error-message'')]
               [Text ''An unexpected error occurred. Please check the console.'']])
         \<and> (ok r2 \<and> json_body r2 = Inr JNull \<longrightarrow>
            result_area (click nts (Resolved r2) p) = [Element ''div'' [(''class'', ''error-message'')]
               [Text ''An unexpected error occurred. Please check the console.'']])
         \<and> (ok r3 \<and> json_body r3 = Inr (JObj kvs) \<and> map_of kvs ''video_url'' = None \<longrightarrow>
            result_area (click nts (Resolved r3) p) =
              [Video \<lparr>src = Some ''undefined'', controls = True\<rparr>])"
proof -
  have unparsed: "result_area (click nts (Resolved r1) p) = [Element ''div'' [(''class'', ''error-message'')]
               [Text ''An unexpected error occurred. Please check the console.'']]"
    if "json_body r1 = Inl e"
  proof -
    have "try_block nts (Resolved r1) = Inl e"
      using that by (simp add: try_block_def)
    then show ?thesis
      using resume_page_thrown [of nts "Resolved r1" e "click_begin p"]
        click_split [OF assms, of nts "Resolved r1"] by simp
  qed
  have null: "result_area (click nts (Resolved r2) p) = [Element ''div'' [(''class'', ''error-message'')]
               [Text ''An unexpected error occurred. Please check the console.'']]"
    if "ok r2" and "json_body r2 = Inr JNull"
  proof -
    have "\<exists>x. try_block nts (Resolved r2) = Inl x"
      using that by (simp add: try_block_def)
    then obtain x where "try_block nts (Resolved r2) = Inl x" ..
    then show ?thesis
      using resume_page_thrown [of nts "Resolved r2" x "click_begin p"]
        click_split [OF assms, of nts "Resolved r2"] by simp
  qed
  have missing: "result_area (click nts (Resolved r3) p) =
      [Video \<lparr>src = Some ''undefined'', controls = True\<rparr>]"
    if "ok r3" and "json_body r3 = Inr (JObj kvs)" and "map_of kvs ''video_url'' = None"
  proof -
    have "handler_resume nts (Resolved r3) =
        [AppendChild \<lparr>src = Some ''undefined'', controls = True\<rparr>,
         SetLoaderDisplay ''none'']"
      using resume_success [of r3 "JObj kvs" None nts] that by simp
    then show ?thesis
      using click_split [OF assms, of nts "Resolved r3"]
      by (simp add: click_resume_def begin_page [OF assms])
  qed
  show ?thesis
    using unparsed null missing by blast
qed

theorem missing_field_and_unparsed_body_witness:
  "result_area
     (click id
        (Resolved \<lparr>status = 200,
                   json_body = Inl (SyntaxError ''Unexpected token < in JSON at position 0'')\<rparr>)
        \<lparr>youtube_url = Some ''https://youtu.be/abc'', result_area = [Text ''old''],
         loader_display = [], status_text = [], alerts = [], requests = []\<rparr>) = [Element ''div'' [(''class'', ''error-message'')]
               [Text ''An unexpected error occurred. Please check the console.'']]
   \<and> result_area
     (click id (Resolved \<lparr>status = 200, json_body = Inr JNull\<rparr>)
        \<lparr>youtube_url = Some ''https://youtu.be/abc'', result_area = [Text ''old''],
         loader_display = [], status_text = [], alerts = [], requests = []\<rparr>) = [Element ''div'' [(''class'', ''error-message'')]
               [Text ''An unexpected error occurred. Please check the console.'']]
   \<and> result_area
     (click id
        (Resolved \<lparr>status = 200, json_body = Inr (JObj [(''clip'', JStr ''X'')])\<rparr>)
        \<lparr>youtube_url = Some ''https://youtu.be/abc'', result_area = [Text ''old''],
         loader_display = [], status_text = [], alerts = [], requests = []\<rparr>) = [Video \<lparr>src = Some ''undefined'', controls = True\<rparr>]"
  using missing_field_and_unparsed_body
    [where p = "\<lparr>youtube_url = Some ''https://youtu.be/abc'', result_area = [Text ''old''],
         loader_display = [], status_text = [], alerts = [], requests = []\<rparr>"
       and v = "''https://youtu.be/abc''"
       and ?r1.0 = "\<lparr>status = 200,
              json_body = Inl (SyntaxError ''Unexpected token < in JSON at position 0'')\<rparr>"
       and e = "SyntaxError ''Unexpected token < in JSON at position 0''"
       and ?r2.0 = "\<lparr>status = 200, json_body = Inr JNull\<rparr>"
       and ?r3.0 = "\<lparr>status = 200, json_body = Inr (JObj [(''clip'', JStr ''X'')])\<rparr>"
       and kvs = "[(''clip'', JStr ''X'')]"
       and nts = "id :: string \<Rightarrow> string"]
  by (simp add: ok_def)

text \<open>
  C8, as stated, fails for a 2xx response whose JSON object has no \<^verbatim>\<open>video_url\<close>:
  the result area holds a video element and not the generic message.
\<close>

theorem missing_video_url_renders_video:
  "result_area
     (click id
        (Resolved \<lparr>status = 200, json_body = Inr (JObj [(''clip'', JStr ''X'')])\<rparr>)
        \<lparr>youtube_url = Some ''https://youtu.be/abc'', result_area = [Text ''old''],
         loader_display = [], status_text = [], alerts = [], requests = []\<rparr>) = [Video \<lparr>src = Some ''undefined'', controls = True\<rparr>]
   \<and> result_area
     (click id
        (Resolved \<lparr>status = 200, json_body = Inr (JObj [(''clip'', JStr ''X'')])\<rparr>)
        \<lparr>youtube_url = Some ''https://youtu.be/abc'', result_area = [Text ''old''],
         loader_display = [], status_text = [], alerts = [], requests = []\<rparr>) \<noteq> [Element ''div'' [(''class'', ''error-message'')]
               [Text ''An unexpected error occurred. Please check the console.'']]"
  by (simp add: click_def handler_effects_def handler_begin_def handler_resume_def
      try_block_def ok_def createElement_video_def set_innerHTML_empty)

text \<open>
  C9. For an invocation with a non-empty input value: clearing the result area is the
  first thing the handler does and showing the loader the second, so the loader is as it
  was when the result area is emptied. From then on, in every state the page goes through
  until the handler has finished, the result area is empty or holds what this invocation
  has rendered; it is empty throughout the first task. At the end of either task the
  loader is shown only over an empty result area: the first task leaves the result area
  empty, the second leaves the loader hidden, whatever page it resumes on.
\<close>

theorem clear_before_loader:
  assumes "youtube_url p = Some v" and "v \<noteq> []"
  shows "take 2 (handler_effects nts fr p) = [SetResultHTML [], SetLoaderDisplay ''flex'']
         \<and> result_area (apply_effect (SetResultHTML []) p) = []
         \<and> loader_display (apply_effect (SetResultHTML []) p) = loader_display p
         \<and> list_all (\<lambda>s. result_area s = []) (tl (states (snd (handler_begin p)) p))
         \<and> list_all
              (\<lambda>s. result_area s = [] \<or> result_area s = result_area (click nts fr p))
              (tl (states (handler_effects nts fr p) p))
         \<and> result_area (click_begin p) = []
         \<and> loader_display (click_resume nts fr q) = ''none''"
proof -
  note effs = effects_nonempty [OF assms, of nts fr]
  have first: "take 2 (handler_effects nts fr p) = [SetResultHTML [], SetLoaderDisplay ''flex'']"
    by (simp add: effs)
  have cleared: "result_area (apply_effect (SetResultHTML []) p) = []"
    "loader_display (apply_effect (SetResultHTML []) p) = loader_display p"
    by (simp_all add: set_innerHTML_empty)
  have task: "list_all (\<lambda>s. result_area s = []) (tl (states (snd (handler_begin p)) p))"
    by (simp add: begin_nonempty [OF assms] set_innerHTML_empty)
  consider
      (thrown) "handler_resume nts fr =
          [SetResultHTML unexpected_markup, SetLoaderDisplay ''none'']"
    | (video) x where "handler_resume nts fr = [AppendChild x, SetLoaderDisplay ''none'']"
    | (message) e where "handler_resume nts fr =
          [SetResultHTML (error_markup e), SetLoaderDisplay ''none'']"
    using resume_shape [of nts fr] by blast
  then have "list_all
      (\<lambda>s. result_area s = [] \<or> result_area s = result_area (click nts fr p))
      (tl (states (handler_effects nts fr p) p))"
  proof cases
    case thrown
    then show ?thesis by (simp add: effs click_def set_innerHTML_empty)
  next
    case video
    then show ?thesis by (simp add: effs click_def set_innerHTML_empty)
  next
    case message
    then show ?thesis by (simp add: effs click_def set_innerHTML_empty)
  qed
  with first cleared task show ?thesis
    by (simp add: begin_page [OF assms] resume_loader)
qed

theorem clear_before_loader_witness:
  "take 2
     (handler_effects id
        (Resolved \<lparr>status = 200, json_body = Inr (JObj [(''video_url'', JStr ''X'')])\<rparr>)
        \<lparr>youtube_url = Some ''https://youtu.be/abc'', result_area = [Text ''old''],
         loader_display = [], status_text = [], alerts = [], requests = []\<rparr>) = [SetResultHTML [], SetLoaderDisplay ''flex'']
   \<and> list_all
     (\<lambda>s. result_area s = [] \<or>
          result_area s =
            result_area
              (click id
                 (Resolved \<lparr>status = 200,
                            json_body = Inr (JObj [(''video_url'', JStr ''X'')])\<rparr>)
                 \<lparr>youtube_url = Some ''https://youtu.be/abc'', result_area = [Text ''old''],
         loader_display = [], status_text = [], alerts = [], requests = []\<rparr>))
     (tl (states
        (handler_effects id
           (Resolved \<lparr>status = 200, json_body = Inr (JObj [(''video_url'', JStr ''X'')])\<rparr>)
           \<lparr>youtube_url = Some ''https://youtu.be/abc'', result_area = [Text ''old''],
         loader_display = [], status_text = [], alerts = [], requests = []\<rparr>)
        \<lparr>youtube_url = Some ''https://youtu.be/abc'', result_area = [Text ''old''],
         loader_display = [], status_text = [], alerts = [], requests = []\<rparr>))"
  using clear_before_loader
    [where p = "\<lparr>youtube_url = Some ''https://youtu.be/abc'', result_area = [Text ''old''],
         loader_display = [], status_text = [], alerts = [], requests = []\<rparr>"
       and v = "''https://youtu.be/abc''"
       and fr = "Resolved \<lparr>status = 200,
                    json_body = Inr (JObj [(''video_url'', JStr ''X'')])\<rparr>"
       and nts = "id :: string \<Rightarrow> string"]
  by simp

text \<open>
  C10. For an invocation with a non-empty input value, whatever the request settles with:
  the handler writes the status text once, \<^verbatim>\<open>Processing...\<close>, right before the
  call of \<^verbatim>\<open>fetch\<close>; the second task leaves the status text as it finds it, and
  the status text reads \<^verbatim>\<open>Processing...\<close> when the handler has finished.
\<close>

theorem status_stays_processing:
  assumes "youtube_url p = Some v" and "v \<noteq> []"
  shows "status_written (handler_effects nts fr p) = [''Processing...'']
         \<and> drop 2 (snd (handler_begin p)) =
           [SetStatusText ''Processing...'', Fetch (fetch_request (Some v))]
         \<and> status_written (handler_resume nts fr) = []
         \<and> status_text (click_begin p) = ''Processing...''
         \<and> status_text (click_resume nts fr q) = status_text q
         \<and> status_text (click nts fr p) = ''Processing...''"
  using assms click_split [OF assms, of nts fr]
  by (simp add: effects_nonempty begin_nonempty begin_page resume_no_status resume_status)

theorem status_stays_processing_witness:
  "status_written
     (handler_effects id
        (Resolved \<lparr>status = 500, json_body = Inr (JObj [(''error'', JStr ''bad url'')])\<rparr>)
        \<lparr>youtube_url = Some ''https://youtu.be/abc'', result_area = [Text ''old''],
         loader_display = [], status_text = ''Ready'', alerts = [], requests = []\<rparr>) = [''Processing...'']
   \<and> status_text
     (click id
        (Resolved \<lparr>status = 500, json_body = Inr (JObj [(''error'', JStr ''bad url'')])\<rparr>)
        \<lparr>youtube_url = Some ''https://youtu.be/abc'', result_area = [Text ''old''],
         loader_display = [], status_text = ''Ready'', alerts = [], requests = []\<rparr>) = ''Processing...''"
  using status_stays_processing
    [where p = "\<lparr>youtube_url = Some ''https://youtu.be/abc'', result_area = [Text ''old''],
         loader_display = [], status_text = ''Ready'', alerts = [], requests = []\<rparr>"
       and v = "''https://youtu.be/abc''"
       and fr = "Resolved \<lparr>status = 500,
                    json_body = Inr (JObj [(''error'', JStr ''bad url'')])\<rparr>"
       and nts = "id :: string \<Rightarrow> string"]
  by simp

end
